theory Spec2Isabelle
  imports Complex_Main
begin

section \<open>Python values and exceptions\<close>

text \<open>
  The exception classes the service raises or lets through. \<open>JSONDecodeError\<close> (module
  json) and \<open>ValidationError\<close> (pydantic) are subclasses of \<open>ValueError\<close>; the others
  are not. \<open>OtherError\<close> stands for every class of a collaborator (driver, HTTP client,
  model provider) that derives from \<open>Exception\<close> only.
\<close>

datatype exc_class =
    ValueError | JSONDecodeError | ValidationError
  | KeyError | TypeError | AttributeError
  | InvalidId | RequestException | OtherError

text \<open>An exception instance: its class and \<open>str(e)\<close>.\<close>

datatype exc = Exc (cls: exc_class) (msg: string)

text \<open>\<open>isinstance(e, ValueError)\<close>, as the handlers \<open>except ValueError\<close> test it.\<close>

fun is_ValueError :: "exc \<Rightarrow> bool" where
  "is_ValueError (Exc c m) = (c = ValueError \<or> c = JSONDecodeError \<or> c = ValidationError)"

text \<open>\<open>isinstance(e, requests.exceptions.RequestException)\<close>.\<close>

fun is_RequestException :: "exc \<Rightarrow> bool" where
  "is_RequestException (Exc c m) = (c = RequestException)"

text \<open>
  The values \<open>json.loads\<close> builds. A dict is an association list read with \<open>map_of\<close>;
  a float is held as its \<open>repr\<close> (\<open>1.0\<close> as \<open>''1.0''\<close>) and no arithmetic is done on it.
\<close>

datatype json =
    JNull
  | JBool bool
  | JInt int
  | JFloat string
  | JString string
  | JArray "json list"
  | JObject "(string \<times> json) list"

subsection \<open>String operations\<close>

text \<open>\<open>s.find(c)\<close> for a one-character \<open>c\<close>: the lowest index, or -1.\<close>

fun py_find :: "string \<Rightarrow> char \<Rightarrow> int" where
  "py_find [] c = -1"
| "py_find (x # xs) c =
     (if x = c then 0
      else (let r = py_find xs c in if r = -1 then -1 else r + 1))"

text \<open>\<open>s.rfind(c)\<close>: the highest index, or -1.\<close>

fun py_rfind :: "string \<Rightarrow> char \<Rightarrow> int" where
  "py_rfind [] c = -1"
| "py_rfind (x # xs) c =
     (let r = py_rfind xs c in
      if r = -1 then (if x = c then 0 else -1) else r + 1)"

text \<open>\<open>s[a:b]\<close> with Python's treatment of negative and out-of-range bounds.\<close>

definition slice_bound :: "nat \<Rightarrow> int \<Rightarrow> nat" where
  "slice_bound n i = (if i < 0 then nat (max 0 (i + int n)) else min (nat i) n)"

definition py_slice :: "'a list \<Rightarrow> int \<Rightarrow> int \<Rightarrow> 'a list" where
  "py_slice s a b =
     (let lo = slice_bound (length s) a; hi = slice_bound (length s) b
      in take (hi - lo) (drop lo s))"

text \<open>
  \<open>str.isspace\<close> on the code points below 256, and \<open>s.strip()\<close>.
\<close>

definition isspace :: "char \<Rightarrow> bool" where
  "isspace c = (of_char c \<in> {9, 10, 11, 12, 13, 28, 29, 30, 31, 32, 133, 160 :: nat})"

definition strip :: "string \<Rightarrow> string" where
  "strip s = rev (dropWhile isspace (rev (dropWhile isspace s)))"

text \<open>\<open>p in s\<close> for two strings: \<open>p\<close> occurs in \<open>s\<close> as a contiguous run.\<close>

fun is_substr :: "string \<Rightarrow> string \<Rightarrow> bool" where
  "is_substr p [] = (p = [])"
| "is_substr p (c # cs) = (take (length p) (c # cs) = p \<or> is_substr p cs)"

section \<open>Locating the JSON text in a model response (ai\_client.py, lines 100--105)\<close>

definition start_idx :: "string \<Rightarrow> int" where
  "start_idx response_text = py_find response_text (CHR ''{'')"

definition end_idx :: "string \<Rightarrow> int" where
  "end_idx response_text = py_rfind response_text (CHR ''}'') + 1"

definition no_json_found :: exc where
  "no_json_found = Exc ValueError ''No JSON found in response''"

definition json_str :: "string \<Rightarrow> exc + string" where
  "json_str response_text =
     (if start_idx response_text = -1 \<or> end_idx response_text = 0
      then Inl no_json_found
      else Inr (py_slice response_text (start_idx response_text) (end_idx response_text)))"

section \<open>Domain model (models/quiz.py)\<close>

datatype question_type = MULTIPLE_CHOICE | BOOLEAN | OPEN

datatype difficulty_level = EASY | MEDIUM | HARD

text \<open>
  \<open>QuestionType(v)\<close> and \<open>DifficultyLevel(v)\<close>: the member whose value equals \<open>v\<close>,
  or \<open>ValueError\<close>. Python's message names the offending value; one text stands for
  all of them here.
\<close>

definition QuestionType :: "json \<Rightarrow> exc + question_type" where
  "QuestionType v =
     (if v = JString ''multiple_choice'' then Inr MULTIPLE_CHOICE
      else if v = JString ''boolean'' then Inr BOOLEAN
      else if v = JString ''open'' then Inr OPEN
      else Inl (Exc ValueError ''value is not a valid QuestionType''))"

definition DifficultyLevel :: "json \<Rightarrow> exc + difficulty_level" where
  "DifficultyLevel v =
     (if v = JString ''easy'' then Inr EASY
      else if v = JString ''medium'' then Inr MEDIUM
      else if v = JString ''hard'' then Inr HARD
      else Inl (Exc ValueError ''value is not a valid DifficultyLevel''))"

record question =
  q_question :: string
  q_type :: question_type
  q_correct_answer :: string
  q_options :: "string list option"
  q_explanation :: string
  q_difficulty :: difficulty_level
  q_topic :: string
  q_concepts_tested :: "string list"

text \<open>A value of the declared type \<open>Union[str, bool]\<close> of \<open>correct_answer\<close>.\<close>

datatype answer = AStr string | ABool bool

text \<open>\<open>str(v)\<close> of a bool, and \<open>s.lower()\<close> on the ASCII letters.\<close>

definition str_of_bool :: "bool \<Rightarrow> string" where
  "str_of_bool b = (if b then ''True'' else ''False'')"

definition lower_char :: "char \<Rightarrow> char" where
  "lower_char c =
     (if 65 \<le> (of_char c :: nat) \<and> (of_char c :: nat) \<le> 90
      then char_of (of_char c + 32 :: nat) else c)"

definition lower :: "string \<Rightarrow> string" where
  "lower s = map lower_char s"

text \<open>The field validator of \<open>correct_answer\<close> (quiz.py, lines 26--31).\<close>

fun convert_answer_to_string :: "answer \<Rightarrow> string" where
  "convert_answer_to_string (ABool b) = lower (str_of_bool b)"
| "convert_answer_to_string (AStr s) = s"

subsection \<open>Type validation of the fields\<close>

text \<open>
  What pydantic accepts for a field, before the field's own validators run, on the values
  \<open>json.loads\<close> can produce. A \<open>str\<close> field takes a string only, a \<open>List[str]\<close> field a
  list of strings only, and \<open>None\<close> is taken where the field is \<open>Optional\<close>.
\<close>

definition validate_str :: "json \<Rightarrow> string option" where
  "validate_str v = (case v of JString s \<Rightarrow> Some s | _ \<Rightarrow> None)"

fun validate_strs :: "json list \<Rightarrow> string list option" where
  "validate_strs [] = Some []"
| "validate_strs (v # vs) =
     (case validate_str v of
        None \<Rightarrow> None
      | Some s \<Rightarrow> (case validate_strs vs of None \<Rightarrow> None | Some ss \<Rightarrow> Some (s # ss)))"

definition validate_str_list :: "json \<Rightarrow> string list option" where
  "validate_str_list v = (case v of JArray vs \<Rightarrow> validate_strs vs | _ \<Rightarrow> None)"

definition validate_optional_str_list :: "json \<Rightarrow> string list option option" where
  "validate_optional_str_list v =
     (case v of JNull \<Rightarrow> Some None | _ \<Rightarrow> map_option Some (validate_str_list v))"

text \<open>
  \<open>Union[str, bool]\<close>: a string stays a string and a bool stays a bool. Whether any other
  value is coerced to a bool is the library's lax mode, taken as the parameter \<open>lax\<close>.
\<close>

definition validate_answer :: "(json \<Rightarrow> bool option) \<Rightarrow> json \<Rightarrow> answer option" where
  "validate_answer lax v =
     (case v of
        JString s \<Rightarrow> Some (AStr s)
      | JBool b \<Rightarrow> Some (ABool b)
      | _ \<Rightarrow> map_option ABool (lax v))"

text \<open>
  The lax coercion of pydantic: among the values that are neither a string nor a bool,
  the integers 1 and 0 and the floats 1.0 and 0.0 (and -0.0, which equals 0.0) become
  \<open>True\<close> and \<open>False\<close>; nothing else is accepted.
\<close>

definition pydantic_lax_bool :: "json \<Rightarrow> bool option" where
  "pydantic_lax_bool v =
     (case v of
        JInt n \<Rightarrow> (if n = 1 then Some True else if n = 0 then Some False else None)
      | JFloat f \<Rightarrow>
          (if f = ''1.0'' then Some True
           else if f = ''0.0'' \<or> f = ''-0.0'' then Some False else None)
      | _ \<Rightarrow> None)"

definition question_validation_error :: exc where
  "question_validation_error = Exc ValidationError ''validation error for Question''"

text \<open>
  \<open>Question(question=..., type=..., ...)\<close>: every field is type-checked, the minimum
  lengths 10 and 20 are enforced, and the answer goes through its validator.
\<close>

definition Question ::
  "(json \<Rightarrow> bool option) \<Rightarrow> json \<Rightarrow> question_type \<Rightarrow> json \<Rightarrow> json \<Rightarrow> json \<Rightarrow>
     difficulty_level \<Rightarrow> json \<Rightarrow> json \<Rightarrow> exc + question" where
  "Question lax question type correct_answer options explanation difficulty topic concepts_tested =
     (case (validate_str question, validate_answer lax correct_answer,
            validate_optional_str_list options, validate_str explanation,
            validate_str topic, validate_str_list concepts_tested) of
        (Some q, Some a, Some opts, Some e, Some t, Some cs) \<Rightarrow>
          (if 10 \<le> length q \<and> 20 \<le> length e
           then Inr \<lparr> q_question = q, q_type = type,
                      q_correct_answer = convert_answer_to_string a,
                      q_options = opts, q_explanation = e, q_difficulty = difficulty,
                      q_topic = t, q_concepts_tested = cs \<rparr>
           else Inl question_validation_error)
      | _ \<Rightarrow> Inl question_validation_error)"

type_synonym timestamp = int

record quiz =
  quiz_book_id :: string
  quiz_questions :: "question list"
  quiz_created_at :: timestamp
  quiz_ai_model :: string
  quiz_generation_prompt :: "string option"
  quiz_metadata :: "(string \<times> json) list option"

definition quiz_validation_error :: exc where
  "quiz_validation_error = Exc ValidationError ''validation error for Quiz''"

text \<open>
  \<open>Quiz(book_id=..., questions=..., ...)\<close> on arguments of their declared types:
  \<open>questions\<close> has \<open>min_length=1\<close> and \<open>max_length=20\<close>; \<open>created_at\<close> is the clock
  reading \<open>now\<close> of the default factory.
\<close>

definition Quiz ::
  "timestamp \<Rightarrow> string \<Rightarrow> question list \<Rightarrow> string \<Rightarrow> string option \<Rightarrow>
     (string \<times> json) list option \<Rightarrow> exc + quiz" where
  "Quiz now book_id questions ai_model generation_prompt metadata =
     (if 1 \<le> length questions \<and> length questions \<le> 20
      then Inr \<lparr> quiz_book_id = book_id, quiz_questions = questions,
                 quiz_created_at = now, quiz_ai_model = ai_model,
                 quiz_generation_prompt = generation_prompt, quiz_metadata = metadata \<rparr>
      else Inl quiz_validation_error)"

section \<open>Request and response models (models/requests.py)\<close>

text \<open>The proportions of a difficulty distribution are floats, kept as written.\<close>

record quiz_options =
  num_questions :: int
  difficulty_distribution :: "(difficulty_level \<times> string) list option"
  question_types :: "question_type list"
  language :: string

definition default_quiz_options :: quiz_options where
  "default_quiz_options =
     \<lparr> num_questions = 10,
       difficulty_distribution = Some [(EASY, ''0.3''), (MEDIUM, ''0.5''), (HARD, ''0.2'')],
       question_types = [MULTIPLE_CHOICE, BOOLEAN],
       language = ''it'' \<rparr>"

text \<open>
  The request object the orchestrator reads. The orchestrator tests \<open>content\<close> for
  falsiness, so the attribute is modelled as optional there; what a request built by
  \<open>QuizGenerationRequest(...)\<close> can hold is decided by the constructor below.
\<close>

record quiz_generation_request =
  content :: "string option"
  book_id :: string
  metadata :: "(string \<times> json) list option"
  options :: "quiz_options option"

text \<open>
  The keyword arguments of \<open>QuizGenerationRequest(...)\<close>, each of its declared type;
  \<open>None\<close> is an argument that is not given.
\<close>

record request_args =
  arg_content :: "string option"
  arg_book_id :: "string option"
  arg_metadata :: "(string \<times> json) list option"
  arg_options :: "quiz_options option"

definition request_validation_error :: exc where
  "request_validation_error = Exc ValidationError ''validation error for QuizGenerationRequest''"

text \<open>
  \<open>content: str = Field(..., min_length=100)\<close> and \<open>book_id: str = Field(...)\<close> are
  required; \<open>metadata\<close> defaults to the empty dict and \<open>options\<close> to \<open>QuizOptions()\<close>,
  whose \<open>num_questions\<close> lies in 1..20.
\<close>

definition QuizGenerationRequest :: "request_args \<Rightarrow> exc + quiz_generation_request" where
  "QuizGenerationRequest args =
     (case (arg_content args, arg_book_id args) of
        (Some c, Some b) \<Rightarrow>
          (let opts = (case arg_options args of None \<Rightarrow> default_quiz_options | Some given \<Rightarrow> given)
           in if 100 \<le> length c \<and> 1 \<le> num_questions opts \<and> num_questions opts \<le> 20
              then Inr \<lparr> content = Some c, book_id = b,
                         metadata = (case arg_metadata args of None \<Rightarrow> Some [] | Some m \<Rightarrow> Some m),
                         options = Some opts \<rparr>
              else Inl request_validation_error)
      | _ \<Rightarrow> Inl request_validation_error)"

text \<open>
  The elapsed seconds, rounded to two decimals, are held as a count of hundredths.
\<close>

record quiz_generation_response =
  quiz_id :: string
  questions_count :: nat
  status :: string
  generation_time_hundredths :: nat
  ai_model_used :: string

section \<open>Configuration (config.py)\<close>

record settings =
  service_name :: string
  service_port :: int
  environment :: string
  mongodb_url :: string
  anthropic_api_key :: string
  default_ai_model :: string

text \<open>
  \<open>settings.content_processor_api_url\<close>: the class \<open>Settings\<close> declares no such field,
  so reading the attribute raises \<open>AttributeError\<close>.
\<close>

definition no_such_setting :: exc where
  "no_such_setting =
     Exc AttributeError
       (CHR 0x27 # ''Settings'' @ CHR 0x27 # '' object has no attribute ''
          @ CHR 0x27 # ''content_processor_api_url'' @ [CHR 0x27])"

definition content_processor_api_url :: "settings \<Rightarrow> exc + string" where
  "content_processor_api_url st = Inl no_such_setting"

section \<open>Collaborators\<close>

text \<open>
  The libraries and remote services the code calls, as functions from what the code passes
  to what it gets back or the exception raised:
  \<^item> \<open>json_loads\<close>: \<open>json.loads\<close>;
  \<^item> \<open>lax_bool\<close>: pydantic's lax coercion to \<open>bool\<close> of a value that is neither a string
    nor a bool;
  \<^item> \<open>messages_create\<close>: the model provider, from the content and options the prompt is
    rendered from to \<open>response.content[0].text\<close>;
  \<^item> \<open>requests_get\<close>: GET of a URL, status check and JSON decoding, giving the value of
    the document's \<open>"content"\<close> key (\<open>None\<close> when missing);
  \<^item> \<open>bson_ObjectId\<close>: \<open>bson.ObjectId(s)\<close>, raising on a malformed identifier;
  \<^item> \<open>clock_now\<close>, \<open>clock_elapsed\<close>: the clock readings.
\<close>

datatype object_id = Oid (str_of_oid: string)

record env =
  json_loads :: "string \<Rightarrow> exc + json"
  lax_bool :: "json \<Rightarrow> bool option"
  messages_create :: "string \<Rightarrow> quiz_options \<Rightarrow> exc + string"
  requests_get :: "string \<Rightarrow> exc + string option"
  bson_ObjectId :: "string \<Rightarrow> exc + object_id"
  clock_now :: timestamp
  clock_elapsed :: nat
  app_settings :: settings

text \<open>Sequencing of calls that may raise.\<close>

definition and_then :: "exc + 'a \<Rightarrow> ('a \<Rightarrow> exc + 'b) \<Rightarrow> exc + 'b" where
  "and_then r f = (case r of Inl e \<Rightarrow> Inl e | Inr v \<Rightarrow> f v)"

section \<open>The response extractor (services/ai\_client.py)\<close>

subsection \<open>Python operations on parsed values\<close>

text \<open>
  \<open>k in v\<close>, \<open>v[k]\<close>, \<open>v.get(k)\<close> for a string \<open>k\<close>, and iteration over \<open>v\<close>.
  Python's message of a \<open>TypeError\<close> depends on the operation and the operand; one
  text stands for all of them here.
\<close>

definition type_error :: exc where
  "type_error = Exc TypeError ''unsupported operand''"

fun py_contains :: "json \<Rightarrow> string \<Rightarrow> exc + bool" where
  "py_contains (JObject kvs) k = Inr (map_of kvs k \<noteq> None)"
| "py_contains (JArray vs) k = Inr (JString k \<in> set vs)"
| "py_contains (JString s) k = Inr (is_substr k s)"
| "py_contains v k = Inl type_error"

fun py_getitem :: "json \<Rightarrow> string \<Rightarrow> exc + json" where
  "py_getitem (JObject kvs) k =
     (case map_of kvs k of
        None \<Rightarrow> Inl (Exc KeyError (CHR 0x27 # k @ [CHR 0x27]))
      | Some v \<Rightarrow> Inr v)"
| "py_getitem v k = Inl type_error"

fun py_get :: "json \<Rightarrow> string \<Rightarrow> exc + json" where
  "py_get (JObject kvs) k = Inr (case map_of kvs k of None \<Rightarrow> JNull | Some v \<Rightarrow> v)"
| "py_get v k = Inl (Exc AttributeError ''object has no attribute get'')"

fun py_iter :: "json \<Rightarrow> exc + json list" where
  "py_iter (JArray vs) = Inr vs"
| "py_iter (JObject kvs) = Inr (map (\<lambda>kv. JString (fst kv)) kvs)"
| "py_iter (JString s) = Inr (map (\<lambda>c. JString [c]) s)"
| "py_iter v = Inl type_error"

subsection \<open>Building the questions (lines 111--127)\<close>

text \<open>The body of the loop: the keyword arguments are evaluated left to right.\<close>

definition build_question :: "env \<Rightarrow> json \<Rightarrow> exc + question" where
  "build_question ev q_data =
     and_then (py_getitem q_data ''question'') (\<lambda>q.
     and_then (py_getitem q_data ''type'') (\<lambda>t.
     and_then (QuestionType t) (\<lambda>ty.
     and_then (py_getitem q_data ''correct_answer'') (\<lambda>a.
     and_then (py_get q_data ''options'') (\<lambda>opts.
     and_then (py_getitem q_data ''explanation'') (\<lambda>e.
     and_then (py_getitem q_data ''difficulty'') (\<lambda>d.
     and_then (DifficultyLevel d) (\<lambda>df.
     and_then (py_getitem q_data ''topic'') (\<lambda>tp.
     and_then (py_getitem q_data ''concepts_tested'') (\<lambda>cs.
       Question (lax_bool ev) q ty a opts e df tp cs))))))))))"

text \<open>The loop, with the list \<open>questions\<close> built so far.\<close>

fun build_questions :: "env \<Rightarrow> json list \<Rightarrow> question list \<Rightarrow> exc + question list" where
  "build_questions ev [] questions = Inr questions"
| "build_questions ev (q_data # rest) questions =
     (case build_question ev q_data of
        Inl e \<Rightarrow> Inl e
      | Inr question \<Rightarrow> build_questions ev rest (questions @ [question]))"

definition no_questions_key :: exc where
  "no_questions_key =
     Exc ValueError (''No '' @ CHR 0x27 # ''questions'' @ CHR 0x27 # '' key in response'')"

text \<open>The body of the inner \<open>try\<close> (lines 99--127).\<close>

definition parse_questions :: "env \<Rightarrow> string \<Rightarrow> exc + question list" where
  "parse_questions ev response_text =
     and_then (json_str response_text) (\<lambda>js.
     and_then (json_loads ev js) (\<lambda>response_data.
     and_then (py_contains response_data ''questions'') (\<lambda>present.
       if \<not> present then Inl no_questions_key
       else
         and_then (py_getitem response_data ''questions'') (\<lambda>arr.
         and_then (py_iter arr) (\<lambda>items. build_questions ev items [])))))"

text \<open>
  The inner \<open>try\<close> with its handler: a \<open>json.JSONDecodeError\<close> is replaced by a
  \<open>ValueError\<close>; every other exception passes through.
\<close>

definition extract_questions :: "env \<Rightarrow> string \<Rightarrow> exc + question list" where
  "extract_questions ev response_text =
     (case parse_questions ev response_text of
        Inl e \<Rightarrow>
          (if cls e = JSONDecodeError
           then Inl (Exc ValueError (''Invalid JSON response from AI: '' @ msg e))
           else Inl e)
      | Inr questions \<Rightarrow> Inr questions)"

text \<open>
  \<open>AIClientService.generate_quiz_questions\<close>: rendering the prompt reads
  \<open>options.difficulty_distribution.items()\<close>, which raises when either is \<open>None\<close>; the
  outer handler logs and re-raises.
\<close>

definition none_attribute_error :: exc where
  "none_attribute_error = Exc AttributeError ''NoneType object has no attribute''"

definition generate_quiz_questions ::
  "env \<Rightarrow> string \<Rightarrow> quiz_options option \<Rightarrow> exc + question list" where
  "generate_quiz_questions ev cont opts =
     (case opts of
        None \<Rightarrow> Inl none_attribute_error
      | Some os \<Rightarrow>
          (case difficulty_distribution os of
             None \<Rightarrow> Inl none_attribute_error
           | Some dd \<Rightarrow>
               and_then (messages_create ev cont os) (\<lambda>text.
                 extract_questions ev (strip text))))"

section \<open>The persistence gateway (services/database.py)\<close>

text \<open>
  A document of the collection: its \<open>"_id"\<close> and its other keys. The driver returns the
  identifier as an \<open>ObjectId\<close>; the gateway replaces it by its string.
\<close>

record ('i, 'b) document =
  doc_id :: 'i
  doc_fields :: 'b

text \<open>
  The driver's collection handle and client: what each call returns, or the exception it
  raises. \<open>delete_one\<close> gives the \<open>deleted_count\<close> of its result.
\<close>

record 'b collection =
  find_one :: "object_id \<Rightarrow> exc + (object_id, 'b) document option"
  delete_one :: "object_id \<Rightarrow> exc + nat"
  insert_one :: "quiz \<Rightarrow> exc + object_id"

record mongo_client =
  admin_command_ping :: "exc + unit"

text \<open>The attributes of \<open>DatabaseService\<close>; both are \<open>None\<close> until \<open>connect\<close> has run.\<close>

record 'b database_service =
  client :: "mongo_client option"
  quizzes_collection :: "'b collection option"

definition db_create_quiz :: "'b database_service \<Rightarrow> quiz \<Rightarrow> exc + string" where
  "db_create_quiz dbs quiz_data =
     (case quizzes_collection dbs of
        None \<Rightarrow> Inl none_attribute_error
      | Some col \<Rightarrow> and_then (insert_one col quiz_data) (\<lambda>inserted. Inr (str_of_oid inserted)))"

text \<open>The body of the \<open>try\<close> of \<open>get_quiz\<close>, then the function with its handler.\<close>

definition db_get_quiz_body ::
  "env \<Rightarrow> 'b database_service \<Rightarrow> string \<Rightarrow> exc + (string, 'b) document option" where
  "db_get_quiz_body ev dbs qid =
     (case quizzes_collection dbs of
        None \<Rightarrow> Inl none_attribute_error
      | Some col \<Rightarrow>
          and_then (bson_ObjectId ev qid) (\<lambda>oid.
          and_then (find_one col oid) (\<lambda>found.
            Inr (map_option
                  (\<lambda>d. \<lparr> doc_id = str_of_oid (doc_id d), doc_fields = doc_fields d \<rparr>) found))))"

definition db_get_quiz ::
  "env \<Rightarrow> 'b database_service \<Rightarrow> string \<Rightarrow> exc + (string, 'b) document option" where
  "db_get_quiz ev dbs qid =
     (case db_get_quiz_body ev dbs qid of Inl e \<Rightarrow> Inr None | Inr found \<Rightarrow> Inr found)"

definition db_delete_quiz_body :: "env \<Rightarrow> 'b database_service \<Rightarrow> string \<Rightarrow> exc + bool" where
  "db_delete_quiz_body ev dbs qid =
     (case quizzes_collection dbs of
        None \<Rightarrow> Inl none_attribute_error
      | Some col \<Rightarrow>
          and_then (bson_ObjectId ev qid) (\<lambda>oid.
          and_then (delete_one col oid) (\<lambda>deleted_count. Inr (0 < deleted_count))))"

definition db_delete_quiz :: "env \<Rightarrow> 'b database_service \<Rightarrow> string \<Rightarrow> exc + bool" where
  "db_delete_quiz ev dbs qid =
     (case db_delete_quiz_body ev dbs qid of Inl e \<Rightarrow> Inr False | Inr ok \<Rightarrow> Inr ok)"

section \<open>The generation orchestrator (services/quiz\_generator.py)\<close>

text \<open>
  \<open>_fetch_document_content\<close>: the body of the \<open>try\<close>, then the two handlers, each of
  which raises a \<open>ValueError\<close>.
\<close>

definition fetch_document_content_body :: "env \<Rightarrow> string \<Rightarrow> exc + string" where
  "fetch_document_content_body ev document_id =
     and_then (content_processor_api_url (app_settings ev)) (\<lambda>base.
     and_then (requests_get ev (base @ document_id)) (\<lambda>got.
       (case got of
          None \<Rightarrow> Inl (Exc ValueError (''Document '' @ document_id @ '' has no content''))
        | Some c \<Rightarrow>
            if c = [] then Inl (Exc ValueError (''Document '' @ document_id @ '' has no content''))
            else Inr c)))"

definition fetch_document_content :: "env \<Rightarrow> string \<Rightarrow> exc + string" where
  "fetch_document_content ev document_id =
     (case fetch_document_content_body ev document_id of
        Inl e \<Rightarrow>
          (if is_RequestException e
           then Inl (Exc ValueError (''Failed to retrieve document content: '' @ msg e))
           else Inl (Exc ValueError (''Error processing document content: '' @ msg e)))
      | Inr c \<Rightarrow> Inr c)"

definition content_too_short :: exc where
  "content_too_short = Exc ValueError ''Content must be at least 100 characters long''"

text \<open>The content the generation runs on (lines 46--54).\<close>

definition resolve_content :: "env \<Rightarrow> quiz_generation_request \<Rightarrow> exc + string" where
  "resolve_content ev request =
     and_then
       (case content request of
          None \<Rightarrow> fetch_document_content ev (book_id request)
        | Some c \<Rightarrow> if c = [] then fetch_document_content ev (book_id request) else Inr c)
       (\<lambda>c. if length c < 100 then Inl content_too_short else Inr c)"

definition service_generate_quiz ::
  "env \<Rightarrow> 'b database_service \<Rightarrow> quiz_generation_request \<Rightarrow> exc + quiz_generation_response" where
  "service_generate_quiz ev dbs request =
     and_then (resolve_content ev request) (\<lambda>c.
     and_then (generate_quiz_questions ev c (options request)) (\<lambda>questions.
     and_then (Quiz (clock_now ev) (book_id request) questions
                 (default_ai_model (app_settings ev))
                 (Some ''Quiz generated from book content'') (metadata request)) (\<lambda>quiz.
     and_then (db_create_quiz dbs quiz) (\<lambda>new_id.
       Inr \<lparr> quiz_id = new_id, questions_count = length questions, status = ''success'',
             generation_time_hundredths = clock_elapsed ev,
             ai_model_used = default_ai_model (app_settings ev) \<rparr>))))"

definition quiz_not_found :: "string \<Rightarrow> string" where
  "quiz_not_found qid = ''Quiz with ID '' @ qid @ '' not found''"

definition service_get_quiz ::
  "env \<Rightarrow> 'b database_service \<Rightarrow> string \<Rightarrow> exc + (string, 'b) document" where
  "service_get_quiz ev dbs qid =
     and_then (db_get_quiz ev dbs qid) (\<lambda>quiz_data.
       (case quiz_data of
          None \<Rightarrow> Inl (Exc ValueError (quiz_not_found qid))
        | Some d \<Rightarrow> Inr d))"

definition service_delete_quiz :: "env \<Rightarrow> 'b database_service \<Rightarrow> string \<Rightarrow> exc + bool" where
  "service_delete_quiz ev dbs qid = db_delete_quiz ev dbs qid"

section \<open>The HTTP surface (main.py)\<close>

text \<open>
  A handler returns its payload (status 200) or raises \<open>HTTPException\<close> with a status
  code and a detail.
\<close>

record http_exception =
  status_code :: nat
  detail :: string

definition response_status :: "http_exception + 'a \<Rightarrow> nat" where
  "response_status r = (case r of Inl h \<Rightarrow> status_code h | Inr payload \<Rightarrow> 200)"

definition route_generate_quiz ::
  "env \<Rightarrow> 'b database_service \<Rightarrow> quiz_generation_request \<Rightarrow>
     http_exception + quiz_generation_response" where
  "route_generate_quiz ev dbs request =
     (case service_generate_quiz ev dbs request of
        Inr response \<Rightarrow> Inr response
      | Inl e \<Rightarrow>
          if is_ValueError e then Inl \<lparr> status_code = 400, detail = msg e \<rparr>
          else Inl \<lparr> status_code = 500, detail = msg e \<rparr>)"

definition route_get_quiz ::
  "env \<Rightarrow> 'b database_service \<Rightarrow> string \<Rightarrow> http_exception + (string, 'b) document" where
  "route_get_quiz ev dbs qid =
     (case service_get_quiz ev dbs qid of
        Inr quiz_data \<Rightarrow> Inr quiz_data
      | Inl e \<Rightarrow>
          if is_ValueError e then Inl \<lparr> status_code = 404, detail = msg e \<rparr>
          else Inl \<lparr> status_code = 500, detail = msg e \<rparr>)"

definition route_delete_quiz ::
  "env \<Rightarrow> 'b database_service \<Rightarrow> string \<Rightarrow> http_exception + string" where
  "route_delete_quiz ev dbs qid =
     (case service_delete_quiz ev dbs qid of
        Inl e \<Rightarrow> Inl \<lparr> status_code = 500, detail = msg e \<rparr>
      | Inr success \<Rightarrow>
          if \<not> success then Inl \<lparr> status_code = 404, detail = quiz_not_found qid \<rparr>
          else Inr (''Quiz '' @ qid @ '' deleted successfully''))"

record health_body =
  h_status :: string
  h_service :: string
  h_version :: string
  h_database :: string
  h_error :: "string option"

text \<open>\<open>await db_service.client.admin.command('ping')\<close>.\<close>

definition ping :: "'b database_service \<Rightarrow> exc + unit" where
  "ping dbs =
     (case client dbs of None \<Rightarrow> Inl none_attribute_error | Some c \<Rightarrow> admin_command_ping c)"

definition health_check :: "env \<Rightarrow> 'b database_service \<Rightarrow> http_exception + health_body" where
  "health_check ev dbs =
     (case ping dbs of
        Inr u \<Rightarrow>
          Inr \<lparr> h_status = ''healthy'', h_service = service_name (app_settings ev),
                h_version = ''1.0.0'', h_database = ''connected'', h_error = None \<rparr>
      | Inl e \<Rightarrow>
          Inr \<lparr> h_status = ''unhealthy'', h_service = service_name (app_settings ev),
                h_version = ''1.0.0'', h_database = ''disconnected'', h_error = Some (msg e) \<rparr>)"

section \<open>Sample collaborators\<close>

text \<open>
  Concrete collaborators for running the definitions on examples: a parser that knows
  three documents and rejects every other text, a provider that answers with a fixed
  reply, an \<open>ObjectId\<close> that takes 24 hexadecimal digits, and a store that either holds
  one quiz or fails on every call.
\<close>

definition good_question_json :: string where
  "good_question_json =
     ''{\"question\":\"Is Rome the capital of Italy?\",\"type\":\"boolean\",''
     @ ''\"correct_answer\":true,\"explanation\":\"Rome is the capital of Italy.\",''
     @ ''\"difficulty\":\"easy\",\"topic\":\"Geography\",\"concepts_tested\":[\"capitals\"]}''"

definition good_question_data :: json where
  "good_question_data =
     JObject [(''question'', JString ''Is Rome the capital of Italy?''),
              (''type'', JString ''boolean''),
              (''correct_answer'', JBool True),
              (''explanation'', JString ''Rome is the capital of Italy.''),
              (''difficulty'', JString ''easy''),
              (''topic'', JString ''Geography''),
              (''concepts_tested'', JArray [JString ''capitals''])]"

definition good_question :: question where
  "good_question =
     \<lparr> q_question = ''Is Rome the capital of Italy?'', q_type = BOOLEAN,
       q_correct_answer = ''true'', q_options = None,
       q_explanation = ''Rome is the capital of Italy.'', q_difficulty = EASY,
       q_topic = ''Geography'', q_concepts_tested = [''capitals''] \<rparr>"

definition empty_reply :: string where
  "empty_reply = ''{\"questions\":[]}''"

definition one_question_reply :: string where
  "one_question_reply = ''{\"questions\":['' @ good_question_json @ '']}''"

definition bad_batch_reply :: string where
  "bad_batch_reply = ''{\"questions\":['' @ good_question_json @ '',1]}''"

definition sample_loads :: "string \<Rightarrow> exc + json" where
  "sample_loads s =
     (if s = empty_reply then Inr (JObject [(''questions'', JArray [])])
      else if s = one_question_reply
        then Inr (JObject [(''questions'', JArray [good_question_data])])
      else if s = bad_batch_reply
        then Inr (JObject [(''questions'', JArray [good_question_data, JInt 1])])
      else Inl (Exc JSONDecodeError ''Expecting value: line 1 column 1 (char 0)''))"

definition is_hex_digit :: "char \<Rightarrow> bool" where
  "is_hex_digit c =
     (let n = (of_char c :: nat)
      in (48 \<le> n \<and> n \<le> 57) \<or> (65 \<le> n \<and> n \<le> 70) \<or> (97 \<le> n \<and> n \<le> 102))"

definition sample_ObjectId :: "string \<Rightarrow> exc + object_id" where
  "sample_ObjectId s =
     (if length s = 24 \<and> list_all is_hex_digit s then Inr (Oid (lower s))
      else Inl (Exc InvalidId (s @ '' is not a valid ObjectId'')))"

definition sample_settings :: settings where
  "sample_settings =
     \<lparr> service_name = ''quiz-generator'', service_port = 8002,
       environment = ''development'', mongodb_url = ''mongodb://localhost:27017'',
       anthropic_api_key = [], default_ai_model = ''claude-3-5-haiku-20241022'' \<rparr>"

definition sample_env :: "string \<Rightarrow> env" where
  "sample_env reply =
     \<lparr> json_loads = sample_loads,
       lax_bool = pydantic_lax_bool,
       messages_create = (\<lambda>c os. Inr reply),
       requests_get = (\<lambda>url. Inr (Some (replicate 120 (CHR ''a'')))),
       bson_ObjectId = sample_ObjectId,
       clock_now = 0,
       clock_elapsed = 250,
       app_settings = sample_settings \<rparr>"

definition sample_oid :: object_id where
  "sample_oid = Oid ''507f1f77bcf86cd799439011''"

definition working_db :: "string database_service" where
  "working_db =
     \<lparr> client = Some \<lparr> admin_command_ping = Inr () \<rparr>,
       quizzes_collection = Some
         \<lparr> find_one = (\<lambda>oid. Inr (if oid = sample_oid
                         then Some \<lparr> doc_id = oid, doc_fields = ''test-book-123'' \<rparr> else None)),
           delete_one = (\<lambda>oid. Inr (if oid = sample_oid then 1 else 0)),
           insert_one = (\<lambda>q. Inr sample_oid) \<rparr> \<rparr>"

definition store_down :: exc where
  "store_down = Exc OtherError ''Database unavailable''"

definition failing_db :: "string database_service" where
  "failing_db =
     \<lparr> client = Some \<lparr> admin_command_ping = Inl store_down \<rparr>,
       quizzes_collection = Some
         \<lparr> find_one = (\<lambda>oid. Inl store_down),
           delete_one = (\<lambda>oid. Inl store_down),
           insert_one = (\<lambda>q. Inl store_down) \<rparr> \<rparr>"

definition sample_content :: string where
  "sample_content = replicate 150 (CHR ''a'')"

definition sample_request :: quiz_generation_request where
  "sample_request =
     \<lparr> content = Some sample_content, book_id = ''test-book-123'',
       metadata = Some [], options = Some default_quiz_options \<rparr>"

definition chatty_reply :: string where
  "chatty_reply = ''Here is the quiz: '' @ one_question_reply @ '' Hope this helps!''"

definition no_json_reply :: string where
  "no_json_reply = ''This is not valid JSON''"

definition request_without_content :: request_args where
  "request_without_content =
     \<lparr> arg_content = None, arg_book_id = Some ''book-123'',
       arg_metadata = None, arg_options = None \<rparr>"

section \<open>Properties of the string operations\<close>

lemma py_find_ge: "-1 \<le> py_find s c"
  by (induction s) (auto simp: Let_def)

lemma py_find_none: "py_find s c = -1 \<longleftrightarrow> c \<notin> set s"
proof (induction s)
  case Nil
  then show ?case by simp
next
  case (Cons x xs)
  then show ?case using py_find_ge [of xs c] by (auto simp: Let_def)
qed

lemma py_find_first:
  "c \<in> set s \<Longrightarrow>
     0 \<le> py_find s c \<and> nat (py_find s c) < length s \<and> s ! nat (py_find s c) = c
     \<and> (\<forall>k < nat (py_find s c). s ! k \<noteq> c)"
proof (induction s)
  case Nil
  then show ?case by simp
next
  case (Cons x xs)
  show ?case
  proof (cases "x = c")
    case True
    then show ?thesis by simp
  next
    case False
    with Cons.prems have mem: "c \<in> set xs" by simp
    note ih = Cons.IH [OF mem]
    have ne: "py_find xs c \<noteq> -1" using mem by (simp add: py_find_none)
    have eq: "py_find (x # xs) c = py_find xs c + 1"
      using False ne by (simp add: Let_def)
    have n: "nat (py_find xs c + 1) = Suc (nat (py_find xs c))"
      using ih by linarith
    show ?thesis
      unfolding eq n using ih False
      by (auto simp: nth_Cons split: nat.splits)
  qed
qed

lemma py_rfind_ge: "-1 \<le> py_rfind s c"
  by (induction s) (auto simp: Let_def)

lemma py_rfind_none: "py_rfind s c = -1 \<longleftrightarrow> c \<notin> set s"
proof (induction s)
  case Nil
  then show ?case by simp
next
  case (Cons x xs)
  then show ?case using py_rfind_ge [of xs c] by (auto simp: Let_def)
qed

lemma py_rfind_last:
  "c \<in> set s \<Longrightarrow>
     0 \<le> py_rfind s c \<and> nat (py_rfind s c) < length s \<and> s ! nat (py_rfind s c) = c
     \<and> (\<forall>k. nat (py_rfind s c) < k \<and> k < length s \<longrightarrow> s ! k \<noteq> c)"
proof (induction s)
  case Nil
  then show ?case by simp
next
  case (Cons x xs)
  show ?case
  proof (cases "c \<in> set xs")
    case True
    note ih = Cons.IH [OF True]
    have ne: "py_rfind xs c \<noteq> -1" using True by (simp add: py_rfind_none)
    have eq: "py_rfind (x # xs) c = py_rfind xs c + 1"
      using ne by (simp add: Let_def)
    have n: "nat (py_rfind xs c + 1) = Suc (nat (py_rfind xs c))"
      using ih by linarith
    show ?thesis
      unfolding eq n using ih
      by (auto simp: nth_Cons split: nat.splits)
  next
    case False
    then have r: "py_rfind xs c = -1" by (simp add: py_rfind_none)
    from False Cons.prems have xc: "x = c" by simp
    have eq: "py_rfind (x # xs) c = 0" using r xc by (simp add: Let_def)
    show ?thesis
      unfolding eq using xc False
      by (auto simp: nth_Cons split: nat.splits)
  qed
qed

lemma json_str_fails_iff:
  "json_str t = Inl no_json_found \<longleftrightarrow> (CHR ''{'' \<notin> set t \<or> CHR ''}'' \<notin> set t)"
proof -
  have "end_idx t = 0 \<longleftrightarrow> py_rfind t (CHR ''}'') = -1"
    by (auto simp: end_idx_def)
  then show ?thesis
    by (auto simp: json_str_def start_idx_def py_find_none py_rfind_none)
qed

lemma json_str_slice:
  assumes "CHR ''{'' \<in> set t" "CHR ''}'' \<in> set t"
  shows "json_str t = Inr (take (Suc (nat (py_rfind t (CHR ''}''))) - nat (py_find t (CHR ''{'')))
                          (drop (nat (py_find t (CHR ''{''))) t))"
proof -
  note f = py_find_first [OF assms(1)]
  note r = py_rfind_last [OF assms(2)]
  have s: "start_idx t \<noteq> -1" using f by (simp add: start_idx_def)
  have e: "end_idx t \<noteq> 0" using r by (simp add: end_idx_def)
  have lo: "slice_bound (length t) (start_idx t) = nat (py_find t (CHR ''{''))"
    using f by (simp add: slice_bound_def start_idx_def)
  have hi: "slice_bound (length t) (end_idx t) = Suc (nat (py_rfind t (CHR ''}'')))"
    using r by (simp add: slice_bound_def end_idx_def nat_add_distrib)
  show ?thesis
    using s e by (simp add: json_str_def py_slice_def lo hi Let_def)
qed

section \<open>Properties of the question loop\<close>

lemma and_then_Inl [simp]: "and_then (Inl e) f = Inl e"
  by (simp add: and_then_def)

lemma and_then_Inr [simp]: "and_then (Inr v) f = f v"
  by (simp add: and_then_def)

lemma and_then_eq_Inl:
  "and_then r f = Inl e \<longleftrightarrow> r = Inl e \<or> (\<exists>v. r = Inr v \<and> f v = Inl e)"
  by (cases r) simp_all

lemma and_then_eq_Inr:
  "and_then r f = Inr x \<longleftrightarrow> (\<exists>v. r = Inr v \<and> f v = Inr x)"
  by (cases r) simp_all

lemma py_getitem_error: "py_getitem v k = Inl e \<Longrightarrow> cls e = KeyError \<or> cls e = TypeError"
  by (cases v) (auto simp: type_error_def split: option.splits)

lemma py_get_error: "py_get v k = Inl e \<Longrightarrow> cls e = AttributeError"
  by (cases v) auto

lemma QuestionType_error: "QuestionType v = Inl e \<Longrightarrow> cls e = ValueError"
  by (auto simp: QuestionType_def split: if_splits)

lemma DifficultyLevel_error: "DifficultyLevel v = Inl e \<Longrightarrow> cls e = ValueError"
  by (auto simp: DifficultyLevel_def split: if_splits)

lemma Question_error:
  "Question lax q ty a opts ex d tp cs = Inl e \<Longrightarrow> e = question_validation_error"
  by (auto simp: Question_def split: option.splits if_splits)

lemma build_question_error:
  assumes "build_question ev q = Inl e"
  shows "cls e \<in> {KeyError, TypeError, AttributeError, ValueError, ValidationError}"
  using assms
  unfolding build_question_def and_then_eq_Inl
  by (auto dest!: py_getitem_error py_get_error QuestionType_error DifficultyLevel_error
        Question_error simp: question_validation_error_def)

lemma build_question_not_decode:
  "build_question ev q = Inl e \<Longrightarrow> cls e \<noteq> JSONDecodeError"
  by (drule build_question_error) auto

lemma build_questions_Inr:
  "build_questions ev items acc = Inr qs \<Longrightarrow>
     \<exists>new. qs = acc @ new \<and> length new = length items
        \<and> (\<forall>i < length items. build_question ev (items ! i) = Inr (new ! i))"
proof (induction items arbitrary: acc)
  case Nil
  then show ?case by auto
next
  case (Cons q rest)
  show ?case
  proof (cases "build_question ev q")
    case (Inl e)
    then show ?thesis using Cons.prems by simp
  next
    case (Inr x)
    then have "build_questions ev rest (acc @ [x]) = Inr qs" using Cons.prems by simp
    then obtain new where n: "qs = (acc @ [x]) @ new" "length new = length rest"
      "\<forall>i < length rest. build_question ev (rest ! i) = Inr (new ! i)"
      using Cons.IH by blast
    have "\<forall>i < length (q # rest). build_question ev ((q # rest) ! i) = Inr ((x # new) ! i)"
      using n(3) Inr by (auto simp: nth_Cons split: nat.splits)
    then show ?thesis
      using n(1,2) by (intro exI [of _ "x # new"]) simp
  qed
qed

lemma build_questions_Inl:
  "build_questions ev items acc = Inl e \<Longrightarrow> \<exists>q \<in> set items. build_question ev q = Inl e"
  by (induction items arbitrary: acc) (auto split: sum.splits)

lemma build_questions_fails:
  "q \<in> set items \<Longrightarrow> build_question ev q = Inl e \<Longrightarrow>
     \<exists>e'. build_questions ev items acc = Inl e'"
proof (induction items arbitrary: acc)
  case Nil
  then show ?case by simp
next
  case (Cons x rest)
  then show ?case by (cases "build_question ev x") auto
qed

lemma parse_questions_array:
  assumes "json_str t = Inr js" "json_loads ev js = Inr (JObject kvs)"
    "map_of kvs ''questions'' = Some (JArray items)"
  shows "parse_questions ev t = build_questions ev items []"
  using assms by (simp add: parse_questions_def)

lemma QuestionType_error_value:
  "QuestionType v = Inl e \<Longrightarrow> e = Exc ValueError ''value is not a valid QuestionType''"
  by (auto simp: QuestionType_def split: if_splits)

lemma DifficultyLevel_error_value:
  "DifficultyLevel v = Inl e \<Longrightarrow> e = Exc ValueError ''value is not a valid DifficultyLevel''"
  by (auto simp: DifficultyLevel_def split: if_splits)

lemma build_question_not_no_json:
  assumes "build_question ev q = Inl e"
  shows "e \<noteq> no_json_found"
  using assms
  unfolding build_question_def and_then_eq_Inl
  by (auto dest!: py_getitem_error py_get_error QuestionType_error_value
        DifficultyLevel_error_value Question_error
        simp: question_validation_error_def no_json_found_def)

lemma extract_questions_failure_cases:
  assumes "extract_questions ev t = Inl e"
  shows "(json_str t = Inl no_json_found \<and> e = no_json_found)
     \<or> (\<exists>js. json_str t = Inr js \<and>
          ((\<exists>d. json_loads ev js = Inl d
               \<and> e = (if cls d = JSONDecodeError
                       then Exc ValueError (''Invalid JSON response from AI: '' @ msg d) else d))
           \<or> e = no_questions_key \<or> e = type_error \<or> cls e = KeyError
           \<or> (\<exists>q. build_question ev q = Inl e)))"
proof -
  from assms obtain d where p: "parse_questions ev t = Inl d"
    and ed: "e = (if cls d = JSONDecodeError
                  then Exc ValueError (''Invalid JSON response from AI: '' @ msg d) else d)"
    by (auto simp: extract_questions_def split: sum.splits if_splits)
  show ?thesis
  proof (cases "json_str t")
    case (Inl x)
    then have "x = no_json_found" by (auto simp: json_str_def split: if_splits)
    with Inl p ed show ?thesis by (auto simp: parse_questions_def no_json_found_def)
  next
    case js: (Inr js)
    show ?thesis
    proof (cases "json_loads ev js")
      case (Inl x)
      with js p ed show ?thesis by (auto simp: parse_questions_def)
    next
      case data: (Inr data)
      show ?thesis
      proof (cases "py_contains data ''questions''")
        case (Inl x)
        then have "x = type_error" by (cases data) auto
        with Inl js data p ed show ?thesis
          by (auto simp: parse_questions_def type_error_def)
      next
        case pr: (Inr present)
        show ?thesis
        proof (cases present)
          case False
          with pr js data p ed show ?thesis
            by (auto simp: parse_questions_def no_questions_key_def)
        next
          case True
          show ?thesis
          proof (cases "py_getitem data ''questions''")
            case (Inl x)
            then have "cls x = KeyError \<or> x = type_error"
              by (cases data) (auto split: option.splits)
            with Inl True pr js data p ed show ?thesis
              by (auto simp: parse_questions_def type_error_def)
          next
            case arr: (Inr arr)
            show ?thesis
            proof (cases "py_iter arr")
              case (Inl x)
              then have "x = type_error" by (cases arr) auto
              with Inl arr True pr js data p ed show ?thesis
                by (auto simp: parse_questions_def type_error_def)
            next
              case (Inr items)
              with arr True pr js data p have b: "build_questions ev items [] = Inl d"
                by (simp add: parse_questions_def)
              then obtain q where q: "build_question ev q = Inl d"
                using build_questions_Inl by blast
              then have "cls d \<noteq> JSONDecodeError" by (rule build_question_not_decode)
              with ed q js show ?thesis by auto
            qed
          qed
        qed
      qed
    qed
  qed
qed

lemma extract_no_json_only_without_braces:
  assumes nj: "\<forall>s. json_loads ev s \<noteq> Inl no_json_found"
    and ex: "extract_questions ev t = Inl no_json_found"
  shows "json_str t = Inl no_json_found"
proof (rule ccontr)
  assume n: "json_str t \<noteq> Inl no_json_found"
  with extract_questions_failure_cases [OF ex] obtain js where js: "json_str t = Inr js"
    and c: "(\<exists>d. json_loads ev js = Inl d
               \<and> no_json_found = (if cls d = JSONDecodeError
                       then Exc ValueError (''Invalid JSON response from AI: '' @ msg d) else d))
           \<or> no_json_found = no_questions_key \<or> no_json_found = type_error
           \<or> cls no_json_found = KeyError
           \<or> (\<exists>q. build_question ev q = Inl no_json_found)"
    by blast
  have 1: "no_json_found \<noteq> Exc ValueError (''Invalid JSON response from AI: '' @ m)" for m
    by (simp add: no_json_found_def)
  have 2: "no_json_found \<noteq> no_questions_key" "no_json_found \<noteq> type_error"
    "cls no_json_found \<noteq> KeyError"
    by (simp_all add: no_json_found_def no_questions_key_def type_error_def)
  have 3: "build_question ev q \<noteq> Inl no_json_found" for q
    using build_question_not_no_json by blast
  from c show False
  proof (elim disjE exE conjE)
    fix d assume d: "json_loads ev js = Inl d"
      and e: "no_json_found = (if cls d = JSONDecodeError
                       then Exc ValueError (''Invalid JSON response from AI: '' @ msg d) else d)"
    show False
    proof (cases "cls d = JSONDecodeError")
      case True
      with e 1 show False by simp
    next
      case False
      with e have "d = no_json_found" by simp
      with d nj show False by simp
    qed
  qed (use 2 3 in auto)
qed

section \<open>Properties of content resolution\<close>

lemma resolve_content_supplied:
  "content request = Some c \<Longrightarrow> 100 \<le> length c \<Longrightarrow> resolve_content ev request = Inr c"
  by (auto simp: resolve_content_def)

lemma resolve_content_short:
  "content request = Some c \<Longrightarrow> c \<noteq> [] \<Longrightarrow> length c < 100 \<Longrightarrow>
     resolve_content ev request = Inl content_too_short"
  by (auto simp: resolve_content_def)

lemma fetch_document_content_fails:
  "fetch_document_content ev document_id
     = Inl (Exc ValueError (''Error processing document content: '' @ msg no_such_setting))"
  by (simp add: fetch_document_content_def fetch_document_content_body_def
      content_processor_api_url_def no_such_setting_def)

lemma resolve_content_absent:
  "content request = None \<or> content request = Some [] \<Longrightarrow>
     resolve_content ev request
       = Inl (Exc ValueError (''Error processing document content: '' @ msg no_such_setting))"
  by (auto simp: resolve_content_def fetch_document_content_fails)

lemma QuizGenerationRequest_content:
  "QuizGenerationRequest args = Inr request \<Longrightarrow>
     \<exists>c. arg_content args = Some c \<and> content request = Some c \<and> 100 \<le> length c"
  by (auto simp: QuizGenerationRequest_def Let_def split: option.splits if_splits)

section \<open>The definitions on the sample collaborators\<close>

lemma lower_True: "lower ''True'' = ''true''"
  by code_simp

lemma lower_False: "lower ''False'' = ''false''"
  by code_simp

lemma noise_extract:
  "extract_questions (sample_env []) ''noise{\"questions\":[]}moretext'' = Inr []"
  by code_simp

lemma bad_batch_json_str: "json_str bad_batch_reply = Inr bad_batch_reply"
  by code_simp

lemma chatty_json_str: "json_str (strip chatty_reply) = Inr one_question_reply"
  by code_simp

lemma bad_batch_loads:
  "json_loads (sample_env reply) bad_batch_reply
     = Inr (JObject [(''questions'', JArray [good_question_data, JInt 1])])"
  by code_simp

lemma one_question_loads:
  "json_loads (sample_env reply) one_question_reply
     = Inr (JObject [(''questions'', JArray [good_question_data])])"
  by code_simp

lemma build_good_question:
  "build_question (sample_env reply) good_question_data = Inr good_question"
  by code_simp

lemma build_bad_question: "build_question (sample_env reply) (JInt 1) = Inl type_error"
  by code_simp

lemma chatty_generate:
  "generate_quiz_questions (sample_env chatty_reply) sample_content (Some default_quiz_options)
     = Inr [good_question]"
  by code_simp

lemma no_json_extract:
  "extract_questions (sample_env no_json_reply) (strip no_json_reply) = Inl no_json_found"
  by code_simp

lemma bad_batch_extract:
  "extract_questions (sample_env bad_batch_reply) (strip bad_batch_reply) = Inl type_error"
  by code_simp

lemma sample_resolve: "resolve_content (sample_env reply) sample_request = Inr sample_content"
  by code_simp

lemma sample_options: "options sample_request = Some default_quiz_options"
  by (simp add: sample_request_def)

lemma sample_distribution:
  "difficulty_distribution default_quiz_options
     = Some [(EASY, ''0.3''), (MEDIUM, ''0.5''), (HARD, ''0.2'')]"
  by (simp add: default_quiz_options_def)

lemma sample_messages_create: "messages_create (sample_env reply) c os = Inr reply"
  by (simp add: sample_env_def)

section \<open>The response extractor\<close>

text \<open>
  C1. The JSON candidate is the text from the first \<open>{\<close> to the last \<open>}\<close> inclusive:
  with \<open>i\<close> the index of the first \<open>{\<close> and \<open>j\<close> that of the last \<open>}\<close>, it is the
  \<open>j + 1 - i\<close> characters from index \<open>i\<close> on, whatever braces lie between. Locating
  fails with "No JSON found in response" exactly when the text has no \<open>{\<close> or no \<open>}\<close>,
  and the extraction then fails with that error; with a parser that does not itself raise
  that error, the extraction fails with it in no other case.
\<close>

theorem json_candidate_first_to_last_brace:
  "(json_str t = Inl no_json_found \<longleftrightarrow> (CHR ''{'' \<notin> set t \<or> CHR ''}'' \<notin> set t))
   \<and> (CHR ''{'' \<notin> set t \<or> CHR ''}'' \<notin> set t \<longrightarrow> extract_questions ev t = Inl no_json_found)
   \<and> ((\<forall>s. json_loads ev s \<noteq> Inl no_json_found) \<and> extract_questions ev t = Inl no_json_found
        \<longrightarrow> CHR ''{'' \<notin> set t \<or> CHR ''}'' \<notin> set t)
   \<and> (CHR ''{'' \<in> set t \<and> CHR ''}'' \<in> set t \<longrightarrow>
        (\<exists>i j. i < length t \<and> t ! i = CHR ''{'' \<and> (\<forall>k<i. t ! k \<noteq> CHR ''{'')
             \<and> j < length t \<and> t ! j = CHR ''}''
             \<and> (\<forall>k. j < k \<and> k < length t \<longrightarrow> t ! k \<noteq> CHR ''}'')
             \<and> json_str t = Inr (take (Suc j - i) (drop i t))))"
proof (intro conjI impI)
  show "json_str t = Inl no_json_found \<longleftrightarrow> (CHR ''{'' \<notin> set t \<or> CHR ''}'' \<notin> set t)"
    by (rule json_str_fails_iff)
next
  assume "CHR ''{'' \<notin> set t \<or> CHR ''}'' \<notin> set t"
  then have "json_str t = Inl no_json_found" by (simp add: json_str_fails_iff)
  then show "extract_questions ev t = Inl no_json_found"
    by (simp add: extract_questions_def parse_questions_def no_json_found_def)
next
  assume "(\<forall>s. json_loads ev s \<noteq> Inl no_json_found)
      \<and> extract_questions ev t = Inl no_json_found"
  then have "json_str t = Inl no_json_found"
    using extract_no_json_only_without_braces by blast
  then show "CHR ''{'' \<notin> set t \<or> CHR ''}'' \<notin> set t"
    by (simp add: json_str_fails_iff)
next
  assume a: "CHR ''{'' \<in> set t \<and> CHR ''}'' \<in> set t"
  then have o: "CHR ''{'' \<in> set t" and c: "CHR ''}'' \<in> set t" by simp_all
  let ?i = "nat (py_find t (CHR ''{''))" and ?j = "nat (py_rfind t (CHR ''}''))"
  have "?i < length t \<and> t ! ?i = CHR ''{'' \<and> (\<forall>k<?i. t ! k \<noteq> CHR ''{'')"
    using py_find_first [OF o] by simp
  moreover have "?j < length t \<and> t ! ?j = CHR ''}''
      \<and> (\<forall>k. ?j < k \<and> k < length t \<longrightarrow> t ! k \<noteq> CHR ''}'')"
    using py_rfind_last [OF c] by simp
  moreover have "json_str t = Inr (take (Suc ?j - ?i) (drop ?i t))"
    by (rule json_str_slice [OF o c])
  ultimately show "\<exists>i j. i < length t \<and> t ! i = CHR ''{'' \<and> (\<forall>k<i. t ! k \<noteq> CHR ''{'')
             \<and> j < length t \<and> t ! j = CHR ''}''
             \<and> (\<forall>k. j < k \<and> k < length t \<longrightarrow> t ! k \<noteq> CHR ''}'')
             \<and> json_str t = Inr (take (Suc j - i) (drop i t))"
    by blast
qed

theorem json_candidate_first_to_last_brace_witness:
  "CHR ''{'' \<in> set ''noise{\"questions\":[]}moretext''
   \<and> CHR ''}'' \<in> set ''noise{\"questions\":[]}moretext''
   \<and> json_str ''noise{\"questions\":[]}moretext'' \<noteq> Inl no_json_found
   \<and> (\<exists>i j. json_str ''noise{\"questions\":[]}moretext''
         = Inr (take (Suc j - i) (drop i ''noise{\"questions\":[]}moretext'')))
   \<and> extract_questions (sample_env []) ''noise{\"questions\":[]}moretext'' = Inr []
   \<and> CHR ''{'' \<notin> set ''no json here''
   \<and> (\<forall>s. json_loads (sample_env []) s \<noteq> Inl no_json_found)
   \<and> extract_questions (sample_env []) ''no json here'' = Inl no_json_found"
proof -
  have m: "CHR ''{'' \<in> set ''noise{\"questions\":[]}moretext''
     \<and> CHR ''}'' \<in> set ''noise{\"questions\":[]}moretext''"
    by simp
  have n: "CHR ''{'' \<notin> set ''no json here''" by simp
  have p: "\<forall>s. json_loads (sample_env []) s \<noteq> Inl no_json_found"
    by (simp add: sample_env_def sample_loads_def no_json_found_def)
  show ?thesis
    using m n p noise_extract
      json_candidate_first_to_last_brace [of "''noise{\"questions\":[]}moretext''" "sample_env []"]
      json_candidate_first_to_last_brace [of "''no json here''" "sample_env []"]
    by blast
qed

text \<open>
  C2. Extraction is all-or-nothing: when one element of the \<open>"questions"\<close> array cannot
  be built into a Question, the extraction returns no list at all; it raises the error of
  an element of the array.
\<close>

theorem extraction_is_all_or_nothing:
  assumes "json_str t = Inr js" and "json_loads ev js = Inr (JObject kvs)"
    and "map_of kvs ''questions'' = Some (JArray items)"
    and "q \<in> set items" and "build_question ev q = Inl e"
  shows "\<exists>e'. extract_questions ev t = Inl e'
           \<and> (\<exists>q' \<in> set items. build_question ev q' = Inl e')"
proof -
  have p: "parse_questions ev t = build_questions ev items []"
    using assms(1-3) by (rule parse_questions_array)
  obtain e' where f: "build_questions ev items [] = Inl e'"
    using build_questions_fails [OF assms(4,5)] by blast
  then obtain q' where q': "q' \<in> set items" "build_question ev q' = Inl e'"
    using build_questions_Inl by blast
  then have "cls e' \<noteq> JSONDecodeError" using build_question_not_decode by blast
  then have "extract_questions ev t = Inl e'"
    using p f by (simp add: extract_questions_def)
  with q' show ?thesis by blast
qed

theorem extraction_is_all_or_nothing_witness:
  "json_str bad_batch_reply = Inr bad_batch_reply
   \<and> json_loads (sample_env []) bad_batch_reply
       = Inr (JObject [(''questions'', JArray [good_question_data, JInt 1])])
   \<and> build_question (sample_env []) good_question_data = Inr good_question
   \<and> build_question (sample_env []) (JInt 1) = Inl type_error
   \<and> (\<exists>e'. extract_questions (sample_env []) bad_batch_reply = Inl e')"
proof -
  have m: "map_of [(''questions'', JArray [good_question_data, JInt 1])] ''questions''
             = Some (JArray [good_question_data, JInt 1])"
    by simp
  have i: "JInt 1 \<in> set [good_question_data, JInt 1]" by simp
  show ?thesis
    using extraction_is_all_or_nothing
      [OF bad_batch_json_str bad_batch_loads [of "[]"] m i build_bad_question [of "[]"]]
      bad_batch_json_str bad_batch_loads [of "[]"] build_good_question [of "[]"]
      build_bad_question [of "[]"]
    by blast
qed

text \<open>
  C7. A successful extraction returns one Question per element of the \<open>"questions"\<close>
  array, in the order of the array: the result has the length of the array and its
  \<open>i\<close>-th entry is built from the \<open>i\<close>-th element, whatever \<open>num_questions\<close> the
  options ask for.
\<close>

theorem extraction_keeps_every_element_in_order:
  assumes "difficulty_distribution os = Some dd" and "messages_create ev c os = Inr text"
    and "json_str (strip text) = Inr js" and "json_loads ev js = Inr (JObject kvs)"
    and "map_of kvs ''questions'' = Some (JArray items)"
    and "generate_quiz_questions ev c (Some os) = Inr qs"
  shows "length qs = length items
         \<and> (\<forall>i < length items. build_question ev (items ! i) = Inr (qs ! i))"
proof -
  have "extract_questions ev (strip text) = Inr qs"
    using assms(1,2,6) by (simp add: generate_quiz_questions_def)
  then have "parse_questions ev (strip text) = Inr qs"
    by (auto simp: extract_questions_def split: sum.splits if_splits)
  then have "build_questions ev items [] = Inr qs"
    using parse_questions_array [OF assms(3-5)] by simp
  then show ?thesis
    using build_questions_Inr [of ev items "[]" qs] by auto
qed

theorem extraction_keeps_every_element_in_order_witness:
  "num_questions default_quiz_options = 10
   \<and> messages_create (sample_env chatty_reply) sample_content default_quiz_options
       = Inr chatty_reply
   \<and> json_str (strip chatty_reply) = Inr one_question_reply
   \<and> generate_quiz_questions (sample_env chatty_reply) sample_content (Some default_quiz_options)
       = Inr [good_question]
   \<and> length [good_question] = length [good_question_data]
   \<and> build_question (sample_env chatty_reply) good_question_data = Inr good_question"
proof -
  have m: "map_of [(''questions'', JArray [good_question_data])] ''questions''
             = Some (JArray [good_question_data])"
    by simp
  have n: "num_questions default_quiz_options = 10" by (simp add: default_quiz_options_def)
  show ?thesis
    using extraction_keeps_every_element_in_order
      [OF sample_distribution sample_messages_create chatty_json_str one_question_loads m
          chatty_generate]
      n sample_messages_create [of chatty_reply sample_content default_quiz_options]
      chatty_json_str chatty_generate
    by simp
qed

section \<open>The domain model\<close>

text \<open>
  C5, as the code has it. A boolean correct answer is stored as the lowercase string
  \<open>"true"\<close> or \<open>"false"\<close>, and a string correct answer is stored as given. Any other
  answer that is accepted has been coerced to a bool before the validator runs, so it is
  stored as \<open>"true"\<close> or \<open>"false"\<close> too, not as given.
\<close>

theorem boolean_answer_becomes_lowercase_string:
  "convert_answer_to_string (ABool b) = (if b then ''true'' else ''false'')
   \<and> convert_answer_to_string (AStr s) = s
   \<and> (Question lax q ty a opts ex d tp cs = Inr r \<longrightarrow>
        (\<forall>b. a = JBool b \<longrightarrow> q_correct_answer r = (if b then ''true'' else ''false''))
        \<and> (\<forall>s. a = JString s \<longrightarrow> q_correct_answer r = s)
        \<and> ((\<forall>s. a \<noteq> JString s) \<longrightarrow>
              q_correct_answer r = ''true'' \<or> q_correct_answer r = ''false''))"
proof -
  have v: "convert_answer_to_string (ABool b) = (if b then ''true'' else ''false'')" for b
    by (simp add: str_of_bool_def lower_True lower_False)
  have "q_correct_answer r = (if b then ''true'' else ''false'')"
    if "Question lax q ty (JBool b) opts ex d tp cs = Inr r" for b
    using that v [of b]
    by (auto simp: Question_def validate_answer_def split: option.splits if_splits)
  moreover have "q_correct_answer r = s"
    if "Question lax q ty (JString s) opts ex d tp cs = Inr r" for s
    using that
    by (auto simp: Question_def validate_answer_def split: option.splits if_splits)
  moreover have "q_correct_answer r = ''true'' \<or> q_correct_answer r = ''false''"
    if ok: "Question lax q ty a opts ex d tp cs = Inr r" and ns: "\<forall>s. a \<noteq> JString s"
  proof -
    from ok obtain x where x: "validate_answer lax a = Some x"
      and r: "q_correct_answer r = convert_answer_to_string x"
      by (auto simp: Question_def split: option.splits if_splits)
    from x ns obtain c where "x = ABool c"
      by (cases a) (auto simp: validate_answer_def)
    with r v [of c] show ?thesis by (cases c) simp_all
  qed
  ultimately show ?thesis using v by auto
qed

theorem boolean_answer_becomes_lowercase_string_witness:
  "Question pydantic_lax_bool (JString ''Is Rome the capital of Italy?'') BOOLEAN (JBool True)
      JNull (JString ''Rome is the capital of Italy.'') EASY (JString ''Geography'')
      (JArray [JString ''capitals'']) = Inr good_question
   \<and> q_correct_answer good_question = ''true''
   \<and> (\<exists>r. Question pydantic_lax_bool (JString ''Is Rome the capital of Italy?'') BOOLEAN
          (JString ''yes, it is'') JNull (JString ''Rome is the capital of Italy.'') EASY
          (JString ''Geography'') (JArray [JString ''capitals'']) = Inr r
        \<and> q_correct_answer r = ''yes, it is'')
   \<and> (\<exists>r. Question pydantic_lax_bool (JString ''Is Rome the capital of Italy?'') BOOLEAN
          (JInt 0) JNull (JString ''Rome is the capital of Italy.'') EASY
          (JString ''Geography'') (JArray [JString ''capitals'']) = Inr r
        \<and> (q_correct_answer r = ''true'' \<or> q_correct_answer r = ''false''))"
proof -
  let ?Q = "\<lambda>a. Question pydantic_lax_bool (JString ''Is Rome the capital of Italy?'') BOOLEAN a
      JNull (JString ''Rome is the capital of Italy.'') EASY (JString ''Geography'')
      (JArray [JString ''capitals''])"
  note defs = Question_def validate_str_def validate_answer_def validate_optional_str_list_def
    validate_str_list_def pydantic_lax_bool_def
  have c: "?Q (JBool True) = Inr good_question"
    by (simp add: defs good_question_def str_of_bool_def lower_True)
  obtain r1 where r1: "?Q (JString ''yes, it is'') = Inr r1"
    by (simp add: defs)
  obtain r0 where r0: "?Q (JInt 0) = Inr r0"
    by (simp add: defs)
  note t = boolean_answer_becomes_lowercase_string
      [of True "[]" pydantic_lax_bool "JString ''Is Rome the capital of Italy?''" BOOLEAN _
         JNull "JString ''Rome is the capital of Italy.''" EASY "JString ''Geography''"
         "JArray [JString ''capitals'']"]
  have 1: "q_correct_answer good_question = ''true''"
    using c t [of "JBool True" good_question] by auto
  have 2: "q_correct_answer r1 = ''yes, it is''"
    using r1 t [of "JString ''yes, it is''" r1] by auto
  have 3: "q_correct_answer r0 = ''true'' \<or> q_correct_answer r0 = ''false''"
    using r0 t [of "JInt 0" r0] by auto
  show ?thesis using c 1 r1 2 r0 3 by blast
qed

text \<open>
  The statement of C5 that a non-boolean answer is retained as given fails on the integer
  1: the Question is built, and its answer is the string \<open>"true"\<close>, not \<open>"1"\<close>.
\<close>

theorem non_boolean_answer_retained_counterexample:
  "Question pydantic_lax_bool (JString ''Is Rome the capital of Italy?'') BOOLEAN (JInt 1)
      JNull (JString ''Rome is the capital of Italy.'') EASY (JString ''Geography'')
      (JArray [JString ''capitals'']) = Inr good_question
   \<and> q_correct_answer good_question = ''true''
   \<and> q_correct_answer good_question \<noteq> ''1''"
  by (simp add: Question_def validate_str_def validate_answer_def validate_optional_str_list_def
      validate_str_list_def pydantic_lax_bool_def good_question_def str_of_bool_def lower_True)

text \<open>
  C6. A Quiz is built from a list of Questions exactly when the list has between 1 and
  20 entries; an empty list and a list of more than 20 fail with a validation error, and
  a Quiz that is built holds the list it was given.
\<close>

theorem quiz_requires_one_to_twenty_questions:
  "((\<exists>qz. Quiz now b qs m p md = Inr qz) \<longleftrightarrow> 1 \<le> length qs \<and> length qs \<le> 20)
   \<and> (Quiz now b qs m p md = Inr qz \<longrightarrow> quiz_questions qz = qs)
   \<and> (length qs = 0 \<or> 20 < length qs \<longrightarrow> Quiz now b qs m p md = Inl quiz_validation_error)"
  by (auto simp: Quiz_def)

theorem quiz_requires_one_to_twenty_questions_witness:
  "(\<exists>qz. Quiz 0 ''test-book-123'' [good_question] ''m'' None None = Inr qz)
   \<and> Quiz 0 ''test-book-123'' [] ''m'' None None = Inl quiz_validation_error
   \<and> Quiz 0 ''test-book-123'' (replicate 21 good_question) ''m'' None None
       = Inl quiz_validation_error"
  using quiz_requires_one_to_twenty_questions [of 0 "''test-book-123''" "[good_question]" "''m''" None None]
    quiz_requires_one_to_twenty_questions [of 0 "''test-book-123''" "[]" "''m''" None None]
    quiz_requires_one_to_twenty_questions
      [of 0 "''test-book-123''" "replicate 21 good_question" "''m''" None None]
  by simp

section \<open>The persistence gateway\<close>

text \<open>
  C8. For an identifier that \<open>ObjectId\<close> rejects, reading returns \<open>None\<close> and deleting
  returns \<open>False\<close>; neither raises.
\<close>

theorem malformed_identifier_is_not_found:
  assumes "bson_ObjectId ev qid = Inl e"
  shows "db_get_quiz ev dbs qid = Inr None \<and> db_delete_quiz ev dbs qid = Inr False"
  using assms
  by (simp add: db_get_quiz_def db_get_quiz_body_def db_delete_quiz_def db_delete_quiz_body_def
      split: option.splits)

theorem malformed_identifier_is_not_found_witness:
  "(\<exists>e. bson_ObjectId (sample_env []) ''nonexistent-id'' = Inl e)
   \<and> db_get_quiz (sample_env []) working_db ''nonexistent-id'' = Inr None
   \<and> db_delete_quiz (sample_env []) working_db ''nonexistent-id'' = Inr False"
proof -
  have h: "bson_ObjectId (sample_env []) ''nonexistent-id''
      = Inl (Exc InvalidId ''nonexistent-id is not a valid ObjectId'')"
    by (simp add: sample_env_def sample_ObjectId_def)
  show ?thesis
    using h malformed_identifier_is_not_found [OF h, of working_db] by simp
qed

text \<open>
  C10. When the driver's \<open>find_one\<close> raises, reading returns \<open>None\<close> and GET
  /quizzes/{id} answers 404; when the driver's \<open>delete_one\<close> raises, deleting returns
  \<open>False\<close> and DELETE /quizzes/{id} answers 404.
\<close>

theorem store_failure_reads_as_not_found:
  assumes "quizzes_collection dbs = Some col" and "bson_ObjectId ev qid = Inr oid"
  shows "(find_one col oid = Inl e \<longrightarrow>
            db_get_quiz ev dbs qid = Inr None
            \<and> route_get_quiz ev dbs qid = Inl \<lparr> status_code = 404, detail = quiz_not_found qid \<rparr>)
       \<and> (delete_one col oid = Inl e' \<longrightarrow>
            db_delete_quiz ev dbs qid = Inr False
            \<and> route_delete_quiz ev dbs qid
                = Inl \<lparr> status_code = 404, detail = quiz_not_found qid \<rparr>)"
  using assms
  by (simp add: db_get_quiz_def db_get_quiz_body_def db_delete_quiz_def db_delete_quiz_body_def
      route_get_quiz_def service_get_quiz_def route_delete_quiz_def service_delete_quiz_def)

theorem store_failure_reads_as_not_found_witness:
  "(\<exists>col oid. quizzes_collection failing_db = Some col
       \<and> bson_ObjectId (sample_env []) ''507f1f77bcf86cd799439011'' = Inr oid
       \<and> find_one col oid = Inl store_down \<and> delete_one col oid = Inl store_down)
   \<and> db_get_quiz (sample_env []) failing_db ''507f1f77bcf86cd799439011'' = Inr None
   \<and> response_status (route_get_quiz (sample_env []) failing_db ''507f1f77bcf86cd799439011'') = 404
   \<and> db_delete_quiz (sample_env []) failing_db ''507f1f77bcf86cd799439011'' = Inr False
   \<and> response_status (route_delete_quiz (sample_env []) failing_db ''507f1f77bcf86cd799439011'') = 404"
proof -
  let ?col = "\<lparr> find_one = (\<lambda>oid. Inl store_down) :: object_id \<Rightarrow> exc + (object_id, string) document option,
                delete_one = (\<lambda>oid. Inl store_down), insert_one = (\<lambda>q. Inl store_down) \<rparr>"
  have c: "quizzes_collection failing_db = Some ?col" by (simp add: failing_db_def)
  have o: "bson_ObjectId (sample_env []) ''507f1f77bcf86cd799439011'' = Inr sample_oid"
    by (simp add: sample_env_def sample_ObjectId_def sample_oid_def is_hex_digit_def
        lower_def lower_char_def)
  show ?thesis
    using c o store_failure_reads_as_not_found [OF c o, of store_down store_down]
    by (simp add: response_status_def)
qed

section \<open>The HTTP surface\<close>

text \<open>
  C9. The health probe always answers 200. When the ping raises, the body has status
  \<open>"unhealthy"\<close>, database \<open>"disconnected"\<close> and the exception's message as error; when
  the ping succeeds, the body has status \<open>"healthy"\<close> and database \<open>"connected"\<close>.
\<close>

theorem health_probe_reports_store_state:
  "response_status (health_check ev dbs) = 200
   \<and> (\<forall>e. ping dbs = Inl e \<longrightarrow>
        (\<exists>body. health_check ev dbs = Inr body \<and> h_status body = ''unhealthy''
           \<and> h_database body = ''disconnected'' \<and> h_error body = Some (msg e)))
   \<and> (ping dbs = Inr () \<longrightarrow>
        (\<exists>body. health_check ev dbs = Inr body \<and> h_status body = ''healthy''
           \<and> h_database body = ''connected'' \<and> h_error body = None))"
  by (auto simp: health_check_def response_status_def split: sum.splits)

theorem health_probe_reports_store_state_witness:
  "ping failing_db = Inl store_down
   \<and> response_status (health_check (sample_env []) failing_db) = 200
   \<and> (\<exists>body. health_check (sample_env []) failing_db = Inr body \<and> h_status body = ''unhealthy''
        \<and> h_database body = ''disconnected'' \<and> h_error body = Some ''Database unavailable'')
   \<and> ping working_db = Inr ()
   \<and> (\<exists>body. health_check (sample_env []) working_db = Inr body \<and> h_status body = ''healthy''
        \<and> h_database body = ''connected'' \<and> h_error body = None)"
proof -
  have f: "ping failing_db = Inl store_down" by (simp add: ping_def failing_db_def)
  have w: "ping working_db = Inr ()" by (simp add: ping_def working_db_def)
  have m: "msg store_down = ''Database unavailable''" by (simp add: store_down_def)
  show ?thesis
    using f w m health_probe_reports_store_state [of "sample_env []" failing_db]
      health_probe_reports_store_state [of "sample_env []" working_db]
    by simp
qed

text \<open>
  C3, as the code has it. An extraction failure passes unchanged through the orchestrator,
  and POST /generate-quiz answers with the exception's message as detail and with status
  400 when the exception is a \<open>ValueError\<close>, 500 otherwise. "No JSON found in response",
  "Invalid JSON response from AI" and "No 'questions' key in response" are
  \<open>ValueError\<close>s, so they are answered with 400.
\<close>

theorem extraction_failure_status:
  assumes "resolve_content ev request = Inr c" and "options request = Some os"
    and "difficulty_distribution os = Some dd" and "messages_create ev c os = Inr text"
    and "extract_questions ev (strip text) = Inl e"
  shows "service_generate_quiz ev dbs request = Inl e
       \<and> route_generate_quiz ev dbs request
           = Inl \<lparr> status_code = (if is_ValueError e then 400 else 500), detail = msg e \<rparr>
       \<and> (e = no_json_found \<or> e = no_questions_key
            \<or> (\<exists>m. e = Exc ValueError (''Invalid JSON response from AI: '' @ m))
          \<longrightarrow> response_status (route_generate_quiz ev dbs request) = 400)"
proof -
  have g: "generate_quiz_questions ev c (options request) = Inl e"
    using assms(2-5) by (simp add: generate_quiz_questions_def)
  have s: "service_generate_quiz ev dbs request = Inl e"
    using assms(1) g by (simp add: service_generate_quiz_def)
  have r: "route_generate_quiz ev dbs request
           = Inl \<lparr> status_code = (if is_ValueError e then 400 else 500), detail = msg e \<rparr>"
    using s by (simp add: route_generate_quiz_def)
  have "response_status (route_generate_quiz ev dbs request) = 400"
    if "e = no_json_found \<or> e = no_questions_key
            \<or> (\<exists>m. e = Exc ValueError (''Invalid JSON response from AI: '' @ m))"
    using that r by (auto simp: response_status_def no_json_found_def no_questions_key_def)
  with s r show ?thesis by blast
qed

theorem extraction_failure_status_witness:
  "resolve_content (sample_env no_json_reply) sample_request = Inr sample_content
   \<and> extract_questions (sample_env no_json_reply) (strip no_json_reply) = Inl no_json_found
   \<and> service_generate_quiz (sample_env no_json_reply) working_db sample_request
       = Inl no_json_found
   \<and> response_status (route_generate_quiz (sample_env no_json_reply) working_db sample_request)
       = 400
   \<and> extract_questions (sample_env bad_batch_reply) (strip bad_batch_reply) = Inl type_error
   \<and> response_status (route_generate_quiz (sample_env bad_batch_reply) working_db sample_request)
       = 500"
proof -
  note a = extraction_failure_status
      [OF sample_resolve sample_options sample_distribution sample_messages_create
          no_json_extract, of working_db]
  note b = extraction_failure_status
      [OF sample_resolve sample_options sample_distribution sample_messages_create
          bad_batch_extract, of working_db]
  have v: "is_ValueError no_json_found" "\<not> is_ValueError type_error"
    by (simp_all add: no_json_found_def type_error_def)
  show ?thesis
    using a b v sample_resolve [of no_json_reply] no_json_extract bad_batch_extract
    by (simp add: response_status_def)
qed

text \<open>
  The statement of C3 with status 500 fails on a reply without braces: the extraction
  fails with "No JSON found in response" and the answer is 400.
\<close>

theorem extraction_failure_status_counterexample:
  "extract_questions (sample_env no_json_reply) (strip no_json_reply) = Inl no_json_found
   \<and> route_generate_quiz (sample_env no_json_reply) working_db sample_request
       = Inl \<lparr> status_code = 400, detail = ''No JSON found in response'' \<rparr>
   \<and> response_status (route_generate_quiz (sample_env no_json_reply) working_db sample_request)
       \<noteq> 500"
  by code_simp

section \<open>Content resolution\<close>

text \<open>
  C4, at a request that gives a book identifier and no content: the request model rejects
  it, since \<open>content\<close> is a required field; and the orchestrator, reached with absent
  content, fails to fetch, since the setting holding the content source's address does
  not exist.
\<close>

theorem request_without_content_is_rejected:
  "QuizGenerationRequest request_without_content = Inl request_validation_error
   \<and> resolve_content (sample_env [])
       \<lparr> content = None, book_id = ''book-123'', metadata = Some [],
         options = Some default_quiz_options \<rparr>
     = Inl (Exc ValueError (''Error processing document content: '' @ msg no_such_setting))"
  by (simp add: QuizGenerationRequest_def request_without_content_def resolve_content_def
      fetch_document_content_fails)

end
